theory Spec2Isabelle
  imports Complex_Main
begin

section \<open>Strings of the host language\<close>

text \<open>
  A string is a list of code units; this development reads every \<^typ>\<open>char\<close> as a code
  unit below 256.  The built-in string operations the viewer calls are written out here
  on that reading: \<^verbatim>\<open>Array.prototype.join\<close>, \<^verbatim>\<open>String.prototype.split\<close> on a
  one-character separator, \<^verbatim>\<open>includes\<close>, \<^verbatim>\<open>startsWith\<close>, \<^verbatim>\<open>toLowerCase\<close>,
  \<^verbatim>\<open>trim\<close>, the regular expression \<^verbatim>\<open>/\s+/g\<close> and \<^verbatim>\<open>JSON.stringify\<close> of a
  string.
\<close>

definition NL :: char where
  "NL = CHR 0x0A"

fun join_str :: "string \<Rightarrow> string list \<Rightarrow> string" where
  "join_str sep [] = []"
| "join_str sep [x] = x"
| "join_str sep (x # y # ys) = x @ sep @ join_str sep (y # ys)"

fun split_chr :: "char \<Rightarrow> string \<Rightarrow> string list" where
  "split_chr c [] = [[]]"
| "split_chr c (x # xs) =
     (if x = c then [] # split_chr c xs
      else (case split_chr c xs of
              [] \<Rightarrow> [[x]]
            | l # ls \<Rightarrow> (x # l) # ls))"

fun startsWith :: "string \<Rightarrow> string \<Rightarrow> bool" where
  "startsWith t [] = True"
| "startsWith [] (c # s) = False"
| "startsWith (d # t) (c # s) = (d = c \<and> startsWith t s)"

fun includes_str :: "string \<Rightarrow> string \<Rightarrow> bool" where
  "includes_str [] s = (s = [])"
| "includes_str (d # t) s = (startsWith (d # t) s \<or> includes_str t s)"

definition lower_chr :: "char \<Rightarrow> char" where
  "lower_chr c =
     (let n = (of_char c :: nat) in
      if (0x41 \<le> n \<and> n \<le> 0x5A) \<or> (0xC0 \<le> n \<and> n \<le> 0xDE \<and> n \<noteq> 0xD7)
      then char_of (n + 0x20) else c)"

definition toLowerCase :: "string \<Rightarrow> string" where
  "toLowerCase s = map lower_chr s"

definition is_space :: "char \<Rightarrow> bool" where
  "is_space c = ((of_char c :: nat) \<in> {0x09, 0x0A, 0x0B, 0x0C, 0x0D, 0x20, 0xA0})"

text \<open>\<^verbatim>\<open>s.trim().length\<close> is zero exactly when every code unit of \<open>s\<close> is white space.\<close>

definition trim_length_zero :: "string \<Rightarrow> bool" where
  "trim_length_zero s = list_all is_space s"

text \<open>
  \<^verbatim>\<open>s.split(/\s+/g).join('-')\<close>: every maximal run of white space, also a leading or a
  trailing one, becomes one hyphen.  The flag says that the previous code unit was white
  space, so that the run already has its hyphen.
\<close>

fun fold_spaces :: "bool \<Rightarrow> string \<Rightarrow> string" where
  "fold_spaces inrun [] = []"
| "fold_spaces inrun (c # s) =
     (if is_space c then (if inrun then fold_spaces True s else CHR ''-'' # fold_spaces True s)
      else c # fold_spaces False s)"

definition split_ws_join_hyphen :: "string \<Rightarrow> string" where
  "split_ws_join_hyphen s = fold_spaces False s"

definition hex_digit :: "nat \<Rightarrow> char" where
  "hex_digit n = (''0123456789abcdef'' ! (n mod 16))"

definition json_escape :: "char \<Rightarrow> string" where
  "json_escape c =
     (let n = (of_char c :: nat) in
      if n = 0x22 then [CHR 0x5C, CHR 0x22]
      else if n = 0x5C then [CHR 0x5C, CHR 0x5C]
      else if n = 0x08 then [CHR 0x5C, CHR ''b'']
      else if n = 0x0C then [CHR 0x5C, CHR ''f'']
      else if n = 0x0A then [CHR 0x5C, CHR ''n'']
      else if n = 0x0D then [CHR 0x5C, CHR ''r'']
      else if n = 0x09 then [CHR 0x5C, CHR ''t'']
      else if n < 0x20 then [CHR 0x5C, CHR ''u'', CHR ''0'', CHR ''0'', hex_digit (n div 16), hex_digit n]
      else [c])"

definition JSON_stringify_string :: "string \<Rightarrow> string" where
  "JSON_stringify_string s = [CHR 0x22] @ concat (map json_escape s) @ [CHR 0x22]"

section \<open>Parsed JSON\<close>

text \<open>
  Numbers as the code sees them: a rational, an infinity or \<^verbatim>\<open>NaN\<close>.  Rounding to
  doubles is not modelled.
\<close>

datatype js_number = NaN | Num rat | PosInfinity | NegInfinity

datatype json =
    JNull
  | JBool bool
  | JNumber js_number
  | JString string
  | JArray "json list"
  | JObject "(string \<times> json) list"

fun truthy :: "json \<Rightarrow> bool" where
  "truthy JNull = False"
| "truthy (JBool b) = b"
| "truthy (JNumber n) = (n \<noteq> NaN \<and> n \<noteq> Num 0)"
| "truthy (JString s) = (s \<noteq> [])"
| "truthy (JArray xs) = True"
| "truthy (JObject kvs) = True"

text \<open>
  Reading a property of a parsed object: of equal keys \<^verbatim>\<open>JSON.parse\<close> keeps the last.
\<close>

definition property :: "(string \<times> json) list \<Rightarrow> string \<Rightarrow> json option" where
  "property kvs key = map_of (rev kvs) key"

datatype js_error = TypeError | SyntaxError

section \<open>The connectivity graph (graph.ts)\<close>

subsection \<open>Data\<close>

type_synonym KnowledgeNode = "string \<times> string list"

type_synonym KnowledgeEdge = "KnowledgeNode \<times> KnowledgeNode"

text \<open>
  A knowledge as the interface \<^verbatim>\<open>ConnectivityKnowledge\<close> types it, each property a list
  of the declared kind; \<open>None\<close> is the property that is not there.
\<close>

record ConnectivityKnowledge =
  connectivity :: "KnowledgeEdge list option"
  axons :: "KnowledgeNode list option"
  dendrites :: "KnowledgeNode list option"
  somas :: "KnowledgeNode list option"

text \<open>
  A knowledge as it is at run time, a parsed JSON value that no one has checked against
  the interface.  Each of the four properties is absent, or an array of the declared
  kind, or a value that is not an array: \<^verbatim>\<open>null\<close>, a boolean, a number, a string or an
  object.  A value that is not an object has none of the properties; an array with
  elements that are not of the declared kind is not represented.
\<close>

datatype json_non_array =
    NullValue
  | BoolValue bool
  | NumberValue js_number
  | StringValue string
  | ObjectValue "(string \<times> json) list"

datatype 'a js_property = Absent | NotArray json_non_array | Array "'a list"

record JsonKnowledge =
  connectivity_json :: "KnowledgeEdge js_property"
  axons_json :: "KnowledgeNode js_property"
  dendrites_json :: "KnowledgeNode js_property"
  somas_json :: "KnowledgeNode js_property"

definition typed_property :: "'a list option \<Rightarrow> 'a js_property" where
  "typed_property p = (case p of None \<Rightarrow> Absent | Some xs \<Rightarrow> Array xs)"

definition json_of :: "ConnectivityKnowledge \<Rightarrow> JsonKnowledge" where
  "json_of k =
     \<lparr>connectivity_json = typed_property (connectivity k), axons_json = typed_property (axons k),
      dendrites_json = typed_property (dendrites k), somas_json = typed_property (somas k)\<rparr>"

text \<open>
  The keys of a node object: \<^verbatim>\<open>id\<close>, \<^verbatim>\<open>label\<close> and the role keys \<^verbatim>\<open>'both-a-d'\<close>,
  \<^verbatim>\<open>'axon'\<close>, \<^verbatim>\<open>'soma'\<close>, \<^verbatim>\<open>'dendrite'\<close>, which the code only ever sets to
  \<^verbatim>\<open>true\<close>; \<open>False\<close> is the key that is not there.
\<close>

record GraphNode =
  id_node :: string
  label_node :: string
  both_a_d :: bool
  axon :: bool
  soma :: bool
  dendrite :: bool

record GraphEdge =
  id_edge :: string
  source_edge :: string
  target_edge :: string

text \<open>
  What the presenter object holds of the drawing: the layout options it was built with,
  whether its tool tip is hidden, and whether the drawing has been destroyed.  The
  drawing engine itself is not part of the repository.
\<close>

record CytoscapeGraph =
  layout_name :: string
  layout_roots :: "string list option"
  tooltip_hidden :: bool
  destroyed :: bool

text \<open>
  The private fields of the graph.  \<^verbatim>\<open>#axons\<close> and \<^verbatim>\<open>#dendrites\<close> have no initial
  value: \<open>g_assigned\<close> says that \<^verbatim>\<open>addConnectivity\<close> has assigned them, and until then
  the two lists hold nothing that is read.
\<close>

record ConnectivityGraph =
  g_cy :: "CytoscapeGraph option"
  g_nodes :: "GraphNode list"
  g_edges :: "GraphEdge list"
  g_assigned :: bool
  g_axons :: "string list"
  g_dendrites :: "string list"
  g_somas :: "string list"
  g_labelCache :: "string \<rightharpoonup> string"

subsection \<open>Building the graph\<close>

text \<open>\<^verbatim>\<open>JSON.stringify(node)\<close> for a node \<^verbatim>\<open>[string, string[]]\<close>.\<close>

definition JSON_stringify_node :: "KnowledgeNode \<Rightarrow> string" where
  "JSON_stringify_node node =
     ''['' @ JSON_stringify_string (fst node) @ '',['' @
     join_str '','' (map JSON_stringify_string (snd node)) @ '']]''"

definition ConnectivityGraph_new :: "(string \<rightharpoonup> string) \<Rightarrow> ConnectivityGraph" where
  "ConnectivityGraph_new labelCache =
     \<lparr>g_cy = None, g_nodes = [], g_edges = [], g_assigned = False, g_axons = [],
      g_dendrites = [], g_somas = [], g_labelCache = labelCache\<rparr>"

text \<open>
  \<^verbatim>\<open>#graphNode\<close> is private: it runs only inside \<^verbatim>\<open>addConnectivity\<close>, after the role
  lists are assigned.  First its loop, which collects one human label per term.
\<close>

fun humanLabels :: "(string \<rightharpoonup> string) \<Rightarrow> string list \<Rightarrow> string list" where
  "humanLabels cache [] = []"
| "humanLabels cache (term # terms) =
     (case cache term of Some humanLabel \<Rightarrow> humanLabel | None \<Rightarrow> []) # humanLabels cache terms"

definition graphNode :: "ConnectivityGraph \<Rightarrow> KnowledgeNode \<Rightarrow> GraphNode" where
  "graphNode g node =
     (let ident = JSON_stringify_node node;
          label = fst node # snd node;
          label = label @ humanLabels (g_labelCache g) label;
          result = \<lparr>id_node = ident, label_node = join_str [NL] label,
                    both_a_d = False, axon = False, soma = False, dendrite = False\<rparr>
      in if ident \<in> set (g_axons g) then
           (if ident \<in> set (g_dendrites g) then result\<lparr>both_a_d := True\<rparr>
            else result\<lparr>axon := True\<rparr>)
         else if ident \<in> set (g_somas g) then result\<lparr>soma := True\<rparr>
         else if ident \<in> set (g_dendrites g) then result\<lparr>dendrite := True\<rparr>
         else result)"

definition graphEdge :: "GraphNode \<Rightarrow> GraphNode \<Rightarrow> GraphEdge" where
  "graphEdge e0 e1 =
     \<lparr>id_edge = id_node e0 @ ''_'' @ id_node e1, source_edge = id_node e0,
      target_edge = id_node e1\<rparr>"

text \<open>The \<^verbatim>\<open>for\<close> loop of \<^verbatim>\<open>addConnectivity\<close> over the edges of the knowledge.\<close>

fun addEdges :: "ConnectivityGraph \<Rightarrow> KnowledgeEdge list \<Rightarrow> ConnectivityGraph" where
  "addEdges g [] = g"
| "addEdges g (edge # rest) =
     (let e0 = graphNode g (fst edge);
          e1 = graphNode g (snd edge)
      in addEdges (g\<lparr>g_nodes := g_nodes g @ [e0, e1],
                      g_edges := g_edges g @ [graphEdge e0 e1]\<rparr>) rest)"

definition MISSING_node :: GraphNode where
  "MISSING_node =
     \<lparr>id_node = ''MISSING'', label_node = ''NO PATHS'',
      both_a_d = False, axon = False, soma = False, dendrite = False\<rparr>"

text \<open>
  \<^verbatim>\<open>knowledge.connectivity.length\<close> as a condition: reading \<^verbatim>\<open>length\<close> of a property
  that is not there or is \<^verbatim>\<open>null\<close> raises \<^verbatim>\<open>TypeError\<close>; a boolean and a number have
  no length; an object has the one it holds under that key.
\<close>

definition connectivity_length :: "JsonKnowledge \<Rightarrow> js_error + bool" where
  "connectivity_length k =
     (case connectivity_json k of
        Absent \<Rightarrow> Inl TypeError
      | Array es \<Rightarrow> Inr (es \<noteq> [])
      | NotArray NullValue \<Rightarrow> Inl TypeError
      | NotArray (BoolValue b) \<Rightarrow> Inr False
      | NotArray (NumberValue n) \<Rightarrow> Inr False
      | NotArray (StringValue t) \<Rightarrow> Inr (t \<noteq> [])
      | NotArray (ObjectValue kvs) \<Rightarrow>
          Inr (case property kvs ''length'' of None \<Rightarrow> False | Some v \<Rightarrow> truthy v))"

text \<open>
  \<^verbatim>\<open>addConnectivity(knowledge)\<close> on a run-time value.  The argument is \<open>None\<close> when the
  caller passes \<^verbatim>\<open>undefined\<close>.  Reading a property of \<^verbatim>\<open>undefined\<close>, and calling
  \<^verbatim>\<open>map\<close> on a property that is not there or is not an array, raises \<^verbatim>\<open>TypeError\<close>;
  \<^verbatim>\<open>somas\<close> is mapped whenever the key is there.  With a connectivity that is not an
  array and has a truthy length the loop raises \<^verbatim>\<open>TypeError\<close> before it adds anything:
  an object is not iterable, and the first character of a string is not a node.
\<close>

definition addConnectivity_json ::
  "ConnectivityGraph \<Rightarrow> JsonKnowledge option \<Rightarrow> js_error + ConnectivityGraph" where
  "addConnectivity_json g knowledge =
     (case knowledge of
        None \<Rightarrow> Inl TypeError
      | Some k \<Rightarrow>
          (case axons_json k of
             Absent \<Rightarrow> Inl TypeError
           | NotArray v \<Rightarrow> Inl TypeError
           | Array ax \<Rightarrow>
               (case dendrites_json k of
                  Absent \<Rightarrow> Inl TypeError
                | NotArray v \<Rightarrow> Inl TypeError
                | Array de \<Rightarrow>
                    (let g1 = g\<lparr>g_assigned := True,
                                 g_axons := map JSON_stringify_node ax,
                                 g_dendrites := map JSON_stringify_node de\<rparr>
                     in case (case somas_json k of
                                Absent \<Rightarrow> Inr g1
                              | NotArray v \<Rightarrow> Inl TypeError
                              | Array so \<Rightarrow> Inr (g1\<lparr>g_somas := map JSON_stringify_node so\<rparr>)) of
                          Inl e \<Rightarrow> Inl e
                        | Inr g2 \<Rightarrow>
                            (case connectivity_length k of
                               Inl e \<Rightarrow> Inl e
                             | Inr nonzero \<Rightarrow>
                                 if nonzero then
                                   (case connectivity_json k of
                                      Array es \<Rightarrow> Inr (addEdges g2 es)
                                    | _ \<Rightarrow> Inl TypeError)
                                 else Inr (g2\<lparr>g_nodes := g_nodes g2 @ [MISSING_node]\<rparr>))))))"

text \<open>\<^verbatim>\<open>addConnectivity\<close> on a knowledge of the type its signature declares.\<close>

definition addConnectivity ::
  "ConnectivityGraph \<Rightarrow> ConnectivityKnowledge option \<Rightarrow> js_error + ConnectivityGraph" where
  "addConnectivity g knowledge = addConnectivity_json g (map_option json_of knowledge)"

subsection \<open>Showing and clearing\<close>

text \<open>
  The getter \<^verbatim>\<open>roots\<close> spreads \<^verbatim>\<open>#dendrites\<close>, which raises \<^verbatim>\<open>TypeError\<close> while the
  list has no value.  The constructor of the presenter reads the roots, picks the layout
  options by name (the two non-default layouts pass \<^verbatim>\<open>roots\<close> only when there are any)
  and ends by creating the tool tip element, hidden.
\<close>

definition roots :: "ConnectivityGraph \<Rightarrow> js_error + string list" where
  "roots g = (if g_assigned g then Inr (g_dendrites g @ g_somas g) else Inl TypeError)"

definition CytoscapeGraph_new :: "ConnectivityGraph \<Rightarrow> string \<Rightarrow> js_error + CytoscapeGraph" where
  "CytoscapeGraph_new connectivityGraph layout =
     (case roots connectivityGraph of
        Inl e \<Rightarrow> Inl e
      | Inr rs \<Rightarrow>
          (let fixed_roots = (if rs \<noteq> [] then Some rs else None)
           in if layout = ''breadthfirst-fix'' then
                Inr \<lparr>layout_name = ''breadthfirst'', layout_roots = fixed_roots,
                     tooltip_hidden = True, destroyed = False\<rparr>
              else if layout = ''dagre'' then
                Inr \<lparr>layout_name = ''dagre'', layout_roots = fixed_roots,
                     tooltip_hidden = True, destroyed = False\<rparr>
              else
                Inr \<lparr>layout_name = ''breadthfirst'', layout_roots = Some rs,
                     tooltip_hidden = True, destroyed = False\<rparr>))"

definition showConnectivity :: "string \<Rightarrow> ConnectivityGraph \<Rightarrow> js_error + ConnectivityGraph" where
  "showConnectivity layout g =
     (case CytoscapeGraph_new g layout of
        Inl e \<Rightarrow> Inl e
      | Inr c \<Rightarrow> Inr (g\<lparr>g_cy := Some c\<rparr>))"

text \<open>
  \<^verbatim>\<open>clearConnectivity\<close> of the graph: the presenter, when there is one, is told to
  \<^verbatim>\<open>remove\<close> its drawing and is then dropped.
\<close>

definition remove :: "CytoscapeGraph \<Rightarrow> CytoscapeGraph" where
  "remove c = c\<lparr>destroyed := True\<rparr>"

definition clearConnectivity_graph :: "ConnectivityGraph \<Rightarrow> ConnectivityGraph" where
  "clearConnectivity_graph g =
     (case g_cy g of
        Some c \<Rightarrow> (let removed = remove c in g\<lparr>g_cy := None\<rparr>)
      | None \<Rightarrow> g)"

subsection \<open>The label the presenter draws\<close>

definition capitalizeLabel :: "string \<Rightarrow> string" where
  "capitalizeLabel label =
     (case label of
        [] \<Rightarrow> label
      | c # rest \<Rightarrow>
          (let n = (of_char c :: nat) in
           if 0x61 \<le> n \<and> n \<le> 0x7A then char_of (n - 0x20) # rest else label))"

definition capitalizeLabels :: "string \<Rightarrow> string" where
  "capitalizeLabels input = join_str [NL] (map capitalizeLabel (split_chr NL input))"

text \<open>
  \<^verbatim>\<open>labels.slice(half)\<close> with \<^verbatim>\<open>half = labels.length/2\<close>: \<^verbatim>\<open>slice\<close> truncates its
  argument to an integer, so the lines from index \<open>length labels div 2\<close> on are kept.
\<close>

definition trimLabel :: "string \<Rightarrow> string" where
  "trimLabel label =
     (let labels = split_chr NL label;
          half = length labels div 2;
          trimLabels = drop half labels
      in capitalizeLabels (join_str [NL] trimLabels))"

section \<open>The controller (index.ts)\<close>

subsection \<open>What the servers answer\<close>

text \<open>
  A \<^verbatim>\<open>fetch\<close> either fails, or gives a response with its \<^verbatim>\<open>ok\<close> flag and its body;
  the body is \<open>None\<close> when \<^verbatim>\<open>response.json()\<close> cannot parse it.
\<close>

datatype 'a fetch_response = NetworkError | Response bool "'a option"

text \<open>
  One row of a knowledge query: the entity and its knowledge, a JSON text.  The text is
  kept as what \<^verbatim>\<open>JSON.parse\<close> makes of it: \<open>None\<close> when it does not parse, else the
  \<^verbatim>\<open>label\<close> property and the connectivity properties of the object it parses to.
\<close>

record Knowledge =
  label_k :: "string option"
  body_k :: JsonKnowledge

type_synonym DataValues = "(string \<times> Knowledge option) list"

text \<open>
  The body of \<^verbatim>\<open>flatmap/{source}/pathways\<close>: \<open>None\<close> when it has no truthy
  \<^verbatim>\<open>paths\<close>, else the keys of \<^verbatim>\<open>paths\<close> in the order \<^verbatim>\<open>for ... in\<close> visits them,
  each with its value.
\<close>

type_synonym MapPaths = "(string \<times> json) list option"

text \<open>
  The answers of the map server in use, the one at \<^verbatim>\<open>#mapServer\<close>, one field per
  endpoint; the knowledge query is split by its two SQL texts, the paths of a source and
  the labels of a list of terms.  The body of a connectivity request is \<open>None\<close> when it
  is the JSON text \<^verbatim>\<open>null\<close>.
\<close>

record Server =
  schema_version :: "json fetch_response"
  query_paths :: "string \<Rightarrow> DataValues fetch_response"
  query_labels :: "string list \<Rightarrow> DataValues fetch_response"
  flatmap_pathways :: "string \<Rightarrow> MapPaths fetch_response"
  flatmap_connectivity :: "string \<Rightarrow> string \<Rightarrow> JsonKnowledge option fetch_response"

subsection \<open>The state of the application and of the page\<close>

record PathOption =
  value_opt :: string
  label_opt :: string
  selected_opt :: bool
  display_opt :: string

text \<open>
  The private fields of \<^verbatim>\<open>App\<close>, then what the handlers read and write of the page:
  whether the five controls are disabled (they are only ever set together), the HTML of
  the server selector, the \<^verbatim>\<open>display\<close> style of the prompt, of the spinner and of the
  no-server message, the options and the size of the path selector, the search
  parameters of the address bar, and the number of tool tip elements created so far.
  The label cache is one \<^verbatim>\<open>Map\<close> shared with every graph built; a graph reads it only
  while it is built, so the graph holds the cache as it was then.
\<close>

record App =
  connectivityGraph :: "ConnectivityGraph option"
  currentPath :: string
  knowledgeByPath :: "string \<rightharpoonup> JsonKnowledge"
  labelCache :: "string \<rightharpoonup> string"
  labelledTerms :: "string list"
  mapServer :: string
  source :: string
  path :: string
  layout :: string
  sourceFromMap :: bool
  connectivityFromMap :: "JsonKnowledge option"
  tools_disabled :: bool
  serverSelector_innerHTML :: string
  pathPrompt_display :: string
  spinner_display :: string
  noServer_display :: string
  pathSelector_options :: "PathOption list"
  pathSelector_size :: nat
  searchParams :: "string \<rightharpoonup> string"
  tooltips_created :: nat




definition emptyConnectivity :: JsonKnowledge where
  "emptyConnectivity =
     \<lparr>connectivity_json = Array [], axons_json = Array [], dendrites_json = Array [],
      somas_json = Array []\<rparr>"

text \<open>
  The constructor.  The last argument is the query of the address bar the page was loaded
  with; no element has an inline \<^verbatim>\<open>display\<close> style yet.
\<close>

definition App_new :: "string \<Rightarrow> string \<Rightarrow> string \<Rightarrow> string \<Rightarrow> (string \<rightharpoonup> string) \<Rightarrow> App" where
  "App_new mapServer0 source0 path0 layout0 params =
     \<lparr>connectivityGraph = None, currentPath = [], knowledgeByPath = Map.empty,
      labelCache = Map.empty, labelledTerms = [], mapServer = mapServer0, source = source0,
      path = path0, layout = layout0,
      sourceFromMap = (source0 \<noteq> [] \<and> \<not> startsWith source0 ''sckan''),
      connectivityFromMap = Some emptyConnectivity,
      tools_disabled = False, serverSelector_innerHTML = [],
      pathPrompt_display = [], spinner_display = [], noServer_display = [],
      pathSelector_options = [], pathSelector_size = 1, searchParams = params,
      tooltips_created = 0\<rparr>"

definition showElement :: "bool \<Rightarrow> string" where
  "showElement show = (if show then ''block'' else ''none'')"

definition hidePrompt :: "App \<Rightarrow> App" where
  "hidePrompt a = a\<lparr>pathPrompt_display := showElement False\<rparr>"

definition showPrompt :: "App \<Rightarrow> App" where
  "showPrompt a = a\<lparr>pathPrompt_display := showElement True\<rparr>"

definition hideSpinner :: "App \<Rightarrow> App" where
  "hideSpinner a = a\<lparr>spinner_display := showElement False\<rparr>"

definition showSpinner :: "App \<Rightarrow> App" where
  "showSpinner a = a\<lparr>spinner_display := showElement True\<rparr>"

definition updateURL :: "string \<Rightarrow> string \<Rightarrow> App \<Rightarrow> App" where
  "updateURL key val a = a\<lparr>searchParams := (searchParams a)(key \<mapsto> val)\<rparr>"


definition enableTools :: "App \<Rightarrow> App" where
  "enableTools a = a\<lparr>tools_disabled := False\<rparr>"



subsection \<open>The schema version\<close>








subsection \<open>Queries and the label cache\<close>

text \<open>\<^verbatim>\<open>#query\<close>: any failure gives the empty list of values.\<close>

definition query :: "DataValues fetch_response \<Rightarrow> DataValues" where
  "query r =
     (case r of
        NetworkError \<Rightarrow> []
      | Response ok body \<Rightarrow>
          if \<not> ok then [] else (case body of None \<Rightarrow> [] | Some vals \<Rightarrow> vals))"

text \<open>\<^verbatim>\<open>knowledge.label || key\<close>: a label that is absent or empty gives the key.\<close>

definition label_or_key :: "string option \<Rightarrow> string \<Rightarrow> string" where
  "label_or_key l key = (case l of None \<Rightarrow> key | Some t \<Rightarrow> if t = [] then key else t)"

text \<open>
  The loop of \<^verbatim>\<open>#getCachedTermLabels\<close> over the rows, with \<^verbatim>\<open>last_entity\<close>
  (\<open>None\<close> is its initial \<^verbatim>\<open>null\<close>).  \<^verbatim>\<open>JSON.parse\<close> raises on a text that does not
  parse.
\<close>

fun cacheRows ::
  "(string \<rightharpoonup> string) \<Rightarrow> string option \<Rightarrow> DataValues \<Rightarrow> js_error + (string \<rightharpoonup> string)" where
  "cacheRows cache last_entity [] = Inr cache"
| "cacheRows cache last_entity ((key, jsonKnowledge) # rest) =
     (if Some key \<noteq> last_entity then
        (case jsonKnowledge of
           None \<Rightarrow> Inl SyntaxError
         | Some knowledge \<Rightarrow>
             cacheRows (cache(key \<mapsto> label_or_key (label_k knowledge) key)) (Some key) rest)
      else cacheRows cache last_entity rest)"

definition getCachedTermLabels :: "Server \<Rightarrow> App \<Rightarrow> js_error + App" where
  "getCachedTermLabels srv a =
     (if labelledTerms a \<noteq> [] then
        (let data = query (query_labels srv (labelledTerms a))
         in case cacheRows (labelCache a) None data of
              Inl e \<Rightarrow> Inl e
            | Inr cache \<Rightarrow> Inr (a\<lparr>labelCache := cache\<rparr>))
      else Inr a)"

text \<open>\<^verbatim>\<open>Set.add\<close> on the set of labelled terms, kept in insertion order.\<close>

definition add_term :: "string \<Rightarrow> string list \<Rightarrow> string list" where
  "add_term t ts = (if t \<in> set ts then ts else ts @ [t])"

definition cacheNodeLabels :: "KnowledgeNode \<Rightarrow> string list \<Rightarrow> string list" where
  "cacheNodeLabels node ts = foldl (\<lambda>acc t. add_term t acc) ts (fst node # snd node)"

text \<open>
  \<^verbatim>\<open>#cacheLabels\<close> is \<^verbatim>\<open>async\<close> and no caller awaits it: what its loop raises on a
  connectivity that is not an array rejects a promise no one reads, before any term is
  added.
\<close>

definition cacheLabels :: "JsonKnowledge \<Rightarrow> App \<Rightarrow> App" where
  "cacheLabels knowledge a =
     (case connectivity_json knowledge of
        Array es \<Rightarrow>
          a\<lparr>labelledTerms :=
               foldl (\<lambda>acc edge. cacheNodeLabels (snd edge) (cacheNodeLabels (fst edge) acc))
                 (labelledTerms a) es\<rparr>
      | _ \<Rightarrow> a)"

subsection \<open>The list of paths\<close>
















subsection \<open>Showing and clearing the graph\<close>

definition fetchMapConnectivity :: "Server \<Rightarrow> string \<Rightarrow> string \<Rightarrow> JsonKnowledge option" where
  "fetchMapConnectivity srv mapuuid pathId =
     (case flatmap_connectivity srv mapuuid pathId of
        NetworkError \<Rightarrow> Some emptyConnectivity
      | Response ok body \<Rightarrow>
          if \<not> ok then Some emptyConnectivity
          else (case body of None \<Rightarrow> Some emptyConnectivity | Some b \<Rightarrow> b))"

text \<open>
  The second half of \<^verbatim>\<open>#showGraph\<close>: a new graph on the label cache, the knowledge
  added to it, the spinner and the prompt hidden, the graph shown.  The presenter
  creates one tool tip element.
\<close>

definition buildGraph :: "JsonKnowledge option \<Rightarrow> App \<Rightarrow> js_error + App" where
  "buildGraph connectivityInfo a =
     (case addConnectivity_json (ConnectivityGraph_new (labelCache a)) connectivityInfo of
        Inl e \<Rightarrow> Inl e
      | Inr g \<Rightarrow>
          (let a1 = hidePrompt (hideSpinner a)
           in case showConnectivity (layout a1) g of
                Inl e \<Rightarrow> Inl e
              | Inr shown \<Rightarrow>
                  Inr (a1\<lparr>connectivityGraph := Some shown,
                          tooltips_created := Suc (tooltips_created a1),
                          currentPath := path a1\<rparr>)))"

definition showGraph :: "Server \<Rightarrow> App \<Rightarrow> js_error + App" where
  "showGraph srv a =
     (if path a \<noteq> [] then
        (let a1 = showSpinner a;
             connectivityInfo = knowledgeByPath a1 (path a1)
         in if sourceFromMap a1 then
              (let fromMap = fetchMapConnectivity srv (source a1) (path a1);
                   a2 = a1\<lparr>connectivityFromMap := fromMap\<rparr>
               in case fromMap of
                    None \<Rightarrow> Inl TypeError
                  | Some k \<Rightarrow>
                      (case connectivity_length k of
                         Inl e \<Rightarrow> Inl e
                       | Inr nonzero \<Rightarrow>
                           if nonzero then
                             (case getCachedTermLabels srv (cacheLabels k a2) of
                                Inl e \<Rightarrow> Inl e
                              | Inr a3 \<Rightarrow> buildGraph fromMap a3)
                           else buildGraph fromMap a2))
            else buildGraph connectivityInfo a1)
      else Inr (showPrompt a))"

text \<open>
  \<^verbatim>\<open>#clearConnectivity\<close> of the application: the graph, when there is one, is cleared
  and dropped and the prompt is shown; the current path is emptied in any case.
\<close>

definition clearConnectivity :: "App \<Rightarrow> App" where
  "clearConnectivity a =
     (let a1 = (case connectivityGraph a of
                  Some g \<Rightarrow>
                    (let cleared = clearConnectivity_graph g
                     in showPrompt (a\<lparr>connectivityGraph := None\<rparr>))
                | None \<Rightarrow> a)
      in a1\<lparr>currentPath := []\<rparr>)"

subsection \<open>The handlers\<close>


definition pathSelector_onchange :: "Server \<Rightarrow> string \<Rightarrow> App \<Rightarrow> js_error + App" where
  "pathSelector_onchange srv target_value a =
     (let a0 = showSpinner a
      in case (if target_value \<noteq> [] then
                 (case showGraph srv (a0\<lparr>path := target_value\<rparr>) of
                    Inl e \<Rightarrow> Inl e
                  | Inr a1 \<Rightarrow> Inr (updateURL ''path'' (path a1) a1))
               else Inr (showPrompt (clearConnectivity a0))) of
           Inl e \<Rightarrow> Inl e
         | Inr a2 \<Rightarrow> Inr (hideSpinner a2))"

text \<open>
  The \<^verbatim>\<open>oninput\<close> handler of the search box.  Its loop starts at the second option.
  The two listeners it adds to the selector set the size back to 1 on later events and
  are left out.
\<close>

definition option_found :: "string \<Rightarrow> PathOption \<Rightarrow> bool" where
  "option_found searchValue opt =
     (let text = toLowerCase (label_opt opt)
      in includes_str text searchValue \<or> includes_str text (split_ws_join_hyphen searchValue))"

definition filter_option :: "string \<Rightarrow> PathOption \<Rightarrow> PathOption" where
  "filter_option searchValue opt =
     opt\<lparr>display_opt := (if trim_length_zero searchValue \<or> option_found searchValue opt
                          then [] else ''none'')\<rparr>"

definition pathSearch_oninput :: "string \<Rightarrow> App \<Rightarrow> App" where
  "pathSearch_oninput target_value a =
     (let searchValue = toLowerCase target_value;
          opts = (case pathSelector_options a of
                    [] \<Rightarrow> []
                  | first # rest \<Rightarrow> first # map (filter_option searchValue) rest)
      in a\<lparr>pathSelector_options := opts,
            pathSelector_size := (if \<not> trim_length_zero searchValue then 10 else 1)\<rparr>)"

section \<open>Example inputs\<close>

text \<open>Concrete servers, records and states at which the theorems below are instantiated.\<close>

definition example_failing_server :: Server where
  "example_failing_server =
     \<lparr>schema_version = NetworkError,
      query_paths = (\<lambda>src. NetworkError),
      query_labels = (\<lambda>terms. NetworkError),
      flatmap_pathways = (\<lambda>src. NetworkError),
      flatmap_connectivity = (\<lambda>src p. NetworkError)\<rparr>"

definition example_knowledge :: ConnectivityKnowledge where
  "example_knowledge =
     \<lparr>connectivity = Some [((''a'', []), (''b'', [''c''])), ((''a'', []), (''b'', [''c'']))],
      axons = Some [(''a'', [])], dendrites = Some [(''a'', []), (''b'', [''c''])],
      somas = Some [(''a'', []), (''s'', [])]\<rparr>"

definition example_cache :: "string \<rightharpoonup> string" where
  "example_cache =
     [''T1'' \<mapsto> ''Foo'', ''T3'' \<mapsto> ''a'' @ [NL] @ ''b'' @ [NL] @ ''c'', ''T4'' \<mapsto> ''d'']"

definition example_map_knowledge :: JsonKnowledge where
  "example_map_knowledge =
     \<lparr>connectivity_json = Array [((''A'', []), (''B'', [''C'']))], axons_json = Array [(''A'', [])],
      dendrites_json = Array [(''B'', [''C''])], somas_json = Absent\<rparr>"

definition example_server :: Server where
  "example_server =
     \<lparr>schema_version = Response True (Some (JObject [(''version'', JNumber (Num (13 / 10)))])),
      query_paths = (\<lambda>src. Response True (Some [])),
      query_labels = (\<lambda>terms. Response True (Some
        [(''A'', Some \<lparr>label_k = Some ''new'', body_k = emptyConnectivity\<rparr>),
         (''B'', Some \<lparr>label_k = Some ''bee'', body_k = emptyConnectivity\<rparr>),
         (''C'', Some \<lparr>label_k = None, body_k = emptyConnectivity\<rparr>),
         (''A'', Some \<lparr>label_k = Some ''old'', body_k = emptyConnectivity\<rparr>)])),
      flatmap_pathways = (\<lambda>src. Response True (Some (Some
        [(''ilxtr:p2'', JObject [(''connectivity'', JArray [JArray []])]),
         (''ilxtr:p3'', JObject [])]))),
      flatmap_connectivity = (\<lambda>src p.
        if p = ''ilxtr:p2'' then Response True (Some (Some example_map_knowledge))
        else Response False None)\<rparr>"

definition example_app :: App where
  "example_app = App_new ''https://mapcore-demo.org/curation/flatmap/'' ''sckan-2024'' ''ilxtr:p1'' ''dagre''
        [''path'' \<mapsto> ''ilxtr:p1'']"

text \<open>The option the browser makes of the placeholder, and two options after it.\<close>

definition placeholder_option :: PathOption where
  "placeholder_option =
     \<lparr>value_opt = [], label_opt = ''Please select path:'', selected_opt = False, display_opt = []\<rparr>"

definition example_options :: "PathOption list" where
  "example_options =
     [placeholder_option,
      \<lparr>value_opt = ''p1'', label_opt = ''Bladder neuron path'', selected_opt = False, display_opt = []\<rparr>,
      \<lparr>value_opt = ''p2'', label_opt = ''Heart-vagal-path'', selected_opt = False, display_opt = []\<rparr>]"

text \<open>
  The graph of the empty connectivity, built on an empty label cache and shown with the
  layout \<^verbatim>\<open>dagre\<close>, and an application that shows it.
\<close>

definition example_shown_graph :: ConnectivityGraph where
  "example_shown_graph =
     \<lparr>g_cy = Some \<lparr>layout_name = ''dagre'', layout_roots = None, tooltip_hidden = True,
                     destroyed = False\<rparr>,
      g_nodes = [MISSING_node], g_edges = [], g_assigned = True, g_axons = [], g_dendrites = [],
      g_somas = [], g_labelCache = Map.empty\<rparr>"

definition example_shown_app :: App where
  "example_shown_app =
     example_app
     \<lparr>connectivityGraph := Some example_shown_graph,
      currentPath := ''ilxtr:p1'', tooltips_created := 1\<rparr>"


section \<open>Properties of the graph builder\<close>

subsection \<open>Joining and splitting lines\<close>

lemma split_chr_nonempty: "split_chr c s \<noteq> []"
  by (induction s) (auto split: list.splits)

lemma split_chr_no_sep: "c \<notin> set s \<Longrightarrow> split_chr c s = [s]"
  by (induction s) auto

lemma split_chr_append: "c \<notin> set x \<Longrightarrow> split_chr c (x @ c # s) = x # split_chr c s"
  by (induction x) (auto split: list.splits)

lemma split_join:
  "xs \<noteq> [] \<Longrightarrow> \<forall>x\<in>set xs. c \<notin> set x \<Longrightarrow> split_chr c (join_str [c] xs) = xs"
proof (induction "[c]" xs rule: join_str.induct)
  case 1
  then show ?case by simp
next
  case (2 x)
  then show ?case by (simp add: split_chr_no_sep)
next
  case (3 x y ys)
  then show ?case by (simp add: split_chr_append)
qed

subsection \<open>One node\<close>

lemma humanLabels_map:
  "humanLabels cache ts = map (\<lambda>t. case cache t of Some l \<Rightarrow> l | None \<Rightarrow> []) ts"
  by (induction ts) auto

lemma label_graphNode:
  "label_node (graphNode g node) =
     join_str [NL] ((fst node # snd node) @ humanLabels (g_labelCache g) (fst node # snd node))"
  by (simp add: graphNode_def Let_def)

lemma id_graphNode: "id_node (graphNode g node) = JSON_stringify_node node"
  by (simp add: graphNode_def Let_def)

lemma graphNode_cong:
  "g_axons g = g_axons g' \<Longrightarrow> g_dendrites g = g_dendrites g' \<Longrightarrow> g_somas g = g_somas g' \<Longrightarrow>
   g_labelCache g = g_labelCache g' \<Longrightarrow> graphNode g node = graphNode g' node"
  by (simp add: graphNode_def Let_def)

lemma graphEdge_graphNode:
  "graphEdge (graphNode g n0) (graphNode g n1) =
     \<lparr>id_edge = JSON_stringify_node n0 @ ''_'' @ JSON_stringify_node n1,
      source_edge = JSON_stringify_node n0, target_edge = JSON_stringify_node n1\<rparr>"
  by (simp add: graphEdge_def id_graphNode)

subsection \<open>The loop over the edges\<close>

lemma addEdges_roles:
  "g_axons (addEdges g es) = g_axons g \<and> g_dendrites (addEdges g es) = g_dendrites g \<and>
   g_somas (addEdges g es) = g_somas g \<and> g_labelCache (addEdges g es) = g_labelCache g \<and>
   g_cy (addEdges g es) = g_cy g \<and> g_assigned (addEdges g es) = g_assigned g"
  by (induction es arbitrary: g) (auto simp: Let_def)

lemma graphNode_addEdges: "graphNode (addEdges g es) node = graphNode g node"
  by (rule graphNode_cong) (simp_all add: addEdges_roles)

lemma graphNode_pushed:
  "graphNode (g\<lparr>g_nodes := ns, g_edges := es\<rparr>) node = graphNode g node"
  by (rule graphNode_cong) simp_all

lemma addEdges_nodes:
  "g_nodes (addEdges g es) =
     g_nodes g @ concat (map (\<lambda>e. [graphNode g (fst e), graphNode g (snd e)]) es)"
  by (induction es arbitrary: g) (auto simp: Let_def graphNode_pushed)

lemma addEdges_edges:
  "g_edges (addEdges g es) =
     g_edges g @ map (\<lambda>e. graphEdge (graphNode g (fst e)) (graphNode g (snd e))) es"
  by (induction es arbitrary: g) (auto simp: Let_def graphNode_pushed)

lemma length_concat_pairs: "length (concat (map (\<lambda>e. [f e, h e]) es)) = 2 * length es"
  by (induction es) auto

text \<open>
  On a knowledge of the declared type, \<^verbatim>\<open>addConnectivity\<close> raises exactly when
  \<^verbatim>\<open>axons\<close>, \<^verbatim>\<open>dendrites\<close> or \<^verbatim>\<open>connectivity\<close> is not there.
\<close>

lemma addConnectivity_None: "addConnectivity g None = Inl TypeError"
  by (simp add: addConnectivity_def addConnectivity_json_def)

lemma addConnectivity_Some:
  "addConnectivity g (Some k) =
     (case axons k of
        None \<Rightarrow> Inl TypeError
      | Some ax \<Rightarrow>
          (case dendrites k of
             None \<Rightarrow> Inl TypeError
           | Some de \<Rightarrow>
               (let g1 = g\<lparr>g_assigned := True,
                            g_axons := map JSON_stringify_node ax,
                            g_dendrites := map JSON_stringify_node de\<rparr>;
                    g2 = (case somas k of
                            None \<Rightarrow> g1
                          | Some so \<Rightarrow> g1\<lparr>g_somas := map JSON_stringify_node so\<rparr>)
                in case connectivity k of
                     None \<Rightarrow> Inl TypeError
                   | Some es \<Rightarrow>
                       if es \<noteq> [] then Inr (addEdges g2 es)
                       else Inr (g2\<lparr>g_nodes := g_nodes g2 @ [MISSING_node]\<rparr>))))"
  by (simp add: addConnectivity_def addConnectivity_json_def json_of_def typed_property_def
      connectivity_length_def Let_def split: option.splits)

lemma addConnectivity_roles:
  "addConnectivity g (Some k) = Inr g' \<Longrightarrow>
     g_axons g' = map JSON_stringify_node (the (axons k)) \<and>
     g_dendrites g' = map JSON_stringify_node (the (dendrites k)) \<and>
     g_somas g' = (case somas k of None \<Rightarrow> g_somas g | Some so \<Rightarrow> map JSON_stringify_node so)"
  by (auto simp: addConnectivity_Some Let_def addEdges_roles split: option.splits if_splits)

lemma addConnectivity_new:
  assumes "connectivity k = Some es" and "axons k = Some ax" and "dendrites k = Some de"
  shows "\<exists>g. addConnectivity (ConnectivityGraph_new cache) (Some k) = Inr g \<and>
      (if es = [] then g_nodes g = [MISSING_node] \<and> g_edges g = []
       else length (g_nodes g) = 2 * length es \<and> length (g_edges g) = length es)"
  using assms
  by (auto simp: addConnectivity_Some ConnectivityGraph_new_def Let_def addEdges_nodes
      addEdges_edges length_concat_pairs split: option.splits)

lemma graphNode_flags:
  "(both_a_d (graphNode g node), axon (graphNode g node), soma (graphNode g node),
    dendrite (graphNode g node)) =
     (if JSON_stringify_node node \<in> set (g_axons g) \<and> JSON_stringify_node node \<in> set (g_dendrites g)
        then (True, False, False, False)
      else if JSON_stringify_node node \<in> set (g_axons g) then (False, True, False, False)
      else if JSON_stringify_node node \<in> set (g_somas g) then (False, False, True, False)
      else if JSON_stringify_node node \<in> set (g_dendrites g) then (False, False, False, True)
      else (False, False, False, False))"
  by (simp add: graphNode_def Let_def)

lemma addConnectivity_total:
  assumes "connectivity k = Some es" and "axons k = Some ax" and "dendrites k = Some de"
  shows "\<exists>g'. addConnectivity g (Some k) = Inr g'"
  using assms by (simp add: addConnectivity_Some Let_def)

lemma addConnectivity_json_arrays:
  assumes "connectivity_json k = Array es" and "axons_json k = Array ax"
      and "dendrites_json k = Array de"
      and "somas_json k = Absent \<or> somas_json k = Array so"
  shows "\<exists>g. addConnectivity_json (ConnectivityGraph_new cache) (Some k) = Inr g \<and>
      g_assigned g \<and> g_cy g = None \<and> g_labelCache g = cache \<and>
      g_axons g = map JSON_stringify_node ax \<and> g_dendrites g = map JSON_stringify_node de \<and>
      g_somas g = (if somas_json k = Absent then [] else map JSON_stringify_node so) \<and>
      g_nodes g = (if es = [] then [MISSING_node]
                   else concat (map (\<lambda>e. [graphNode g (fst e), graphNode g (snd e)]) es)) \<and>
      g_edges g = map (\<lambda>e. \<lparr>id_edge = JSON_stringify_node (fst e) @ ''_'' @ JSON_stringify_node (snd e),
                              source_edge = JSON_stringify_node (fst e),
                              target_edge = JSON_stringify_node (snd e)\<rparr>) es"
proof -
  define g1 where "g1 = (ConnectivityGraph_new cache)\<lparr>g_assigned := True,
                           g_axons := map JSON_stringify_node ax,
                           g_dendrites := map JSON_stringify_node de\<rparr>"
  define g2 where "g2 = (if somas_json k = Absent then g1
                         else g1\<lparr>g_somas := map JSON_stringify_node so\<rparr>)"
  have g2: "g_nodes g2 = []" "g_edges g2 = []" "g_assigned g2" "g_cy g2 = None"
      "g_labelCache g2 = cache" "g_axons g2 = map JSON_stringify_node ax"
      "g_dendrites g2 = map JSON_stringify_node de"
      "g_somas g2 = (if somas_json k = Absent then [] else map JSON_stringify_node so)"
    by (simp_all add: g2_def g1_def ConnectivityGraph_new_def)
  show ?thesis
  proof (cases "es = []")
    case True
    have res: "addConnectivity_json (ConnectivityGraph_new cache) (Some k)
                 = Inr (g2\<lparr>g_nodes := g_nodes g2 @ [MISSING_node]\<rparr>)"
      using assms True unfolding g2_def g1_def
      by (auto simp: addConnectivity_json_def connectivity_length_def Let_def)
    show ?thesis
      unfolding res using True g2 by simp
  next
    case False
    have res: "addConnectivity_json (ConnectivityGraph_new cache) (Some k) = Inr (addEdges g2 es)"
      using assms False unfolding g2_def g1_def
      by (auto simp: addConnectivity_json_def connectivity_length_def Let_def)
    have n: "g_nodes (addEdges g2 es) =
        concat (map (\<lambda>e. [graphNode (addEdges g2 es) (fst e), graphNode (addEdges g2 es) (snd e)]) es)"
      by (simp add: addEdges_nodes g2 graphNode_addEdges)
    have e: "g_edges (addEdges g2 es) =
        map (\<lambda>e. \<lparr>id_edge = JSON_stringify_node (fst e) @ ''_'' @ JSON_stringify_node (snd e),
                   source_edge = JSON_stringify_node (fst e),
                   target_edge = JSON_stringify_node (snd e)\<rparr>) es"
      by (simp add: addEdges_edges g2 graphEdge_graphNode)
    show ?thesis
      unfolding res using False n e g2 by (simp add: addEdges_roles)
  qed
qed

subsection \<open>The lines of a label\<close>

lemma lines_graphNode:
  assumes "\<forall>t\<in>set (fst node # snd node). NL \<notin> set t"
      and "\<forall>t\<in>set (fst node # snd node). \<forall>l. g_labelCache g t = Some l \<longrightarrow> NL \<notin> set l"
  shows "split_chr NL (label_node (graphNode g node)) =
           (fst node # snd node) @
           map (\<lambda>t. case g_labelCache g t of Some l \<Rightarrow> l | None \<Rightarrow> []) (fst node # snd node)"
proof -
  let ?ts = "fst node # snd node"
  let ?hs = "map (\<lambda>t. case g_labelCache g t of Some l \<Rightarrow> l | None \<Rightarrow> []) ?ts"
  have hs: "\<forall>x\<in>set ?hs. NL \<notin> set x"
    using assms(2) by (auto split: option.splits)
  have "\<forall>x\<in>set (?ts @ ?hs). NL \<notin> set x"
    using assms(1) hs by (metis Un_iff set_append)
  moreover have "?ts @ ?hs \<noteq> []" by simp
  ultimately have "split_chr NL (join_str [NL] (?ts @ ?hs)) = ?ts @ ?hs"
    by (rule split_join[rotated])
  then show ?thesis
    by (simp only: label_graphNode humanLabels_map)
qed

section \<open>The claims about the graph builder\<close>

text \<open>
  C1 (as amended).  For every knowledge whose \<^verbatim>\<open>axons\<close> and \<^verbatim>\<open>dendrites\<close> are arrays of
  nodes, whose \<^verbatim>\<open>somas\<close> is not there or is an array of nodes, and whose
  \<^verbatim>\<open>connectivity\<close> is the empty array, \<^verbatim>\<open>addConnectivity\<close> on a newly constructed graph
  returns, and the graph is exactly the one sentinel node
  \<^verbatim>\<open>{id: 'MISSING', label: 'NO PATHS'}\<close> and no edge.  This covers the fallback of the
  gateway: when the connectivity request fails, answers with a status that is not ok or
  with a body that does not parse, \<^verbatim>\<open>#fetchMapConnectivity\<close> gives the empty
  connectivity, and the graph built from it is the sentinel.
\<close>

theorem addConnectivity_empty_sentinel:
  "(connectivity_json k = Array [] \<and> axons_json k = Array ax \<and> dendrites_json k = Array de \<and>
    (somas_json k = Absent \<or> somas_json k = Array so) \<longrightarrow>
      (\<exists>g. addConnectivity_json (ConnectivityGraph_new cache) (Some k) = Inr g \<and>
           g_nodes g = [MISSING_node] \<and> g_edges g = [])) \<and>
   (flatmap_connectivity srv m p = NetworkError \<or>
    flatmap_connectivity srv m p = Response False body \<or>
    flatmap_connectivity srv m p = Response True None \<longrightarrow>
      fetchMapConnectivity srv m p = Some emptyConnectivity \<and>
      (\<exists>g. addConnectivity_json (ConnectivityGraph_new cache) (fetchMapConnectivity srv m p) = Inr g \<and>
           g_nodes g = [MISSING_node] \<and> g_edges g = []))"
proof (intro conjI impI)
  assume h: "connectivity_json k = Array [] \<and> axons_json k = Array ax \<and> dendrites_json k = Array de \<and>
    (somas_json k = Absent \<or> somas_json k = Array so)"
  then have "connectivity_json k = Array []" "axons_json k = Array ax" "dendrites_json k = Array de"
      "somas_json k = Absent \<or> somas_json k = Array so"
    by simp_all
  from addConnectivity_json_arrays[OF this, of cache]
  show "\<exists>g. addConnectivity_json (ConnectivityGraph_new cache) (Some k) = Inr g \<and>
           g_nodes g = [MISSING_node] \<and> g_edges g = []"
    by auto
next
  assume f: "flatmap_connectivity srv m p = NetworkError \<or>
    flatmap_connectivity srv m p = Response False body \<or>
    flatmap_connectivity srv m p = Response True None"
  then show e: "fetchMapConnectivity srv m p = Some emptyConnectivity"
    by (auto simp: fetchMapConnectivity_def)
  have "connectivity_json emptyConnectivity = Array []" "axons_json emptyConnectivity = Array []"
      "dendrites_json emptyConnectivity = Array []"
      "somas_json emptyConnectivity = Absent \<or> somas_json emptyConnectivity = Array []"
    by (simp_all add: emptyConnectivity_def)
  from addConnectivity_json_arrays[OF this, of cache]
  show "\<exists>g. addConnectivity_json (ConnectivityGraph_new cache) (fetchMapConnectivity srv m p) = Inr g \<and>
           g_nodes g = [MISSING_node] \<and> g_edges g = []"
    unfolding e by auto
qed

theorem addConnectivity_empty_sentinel_witness:
  "connectivity_json \<lparr>connectivity_json = Array [], axons_json = Array [(''a'', [])],
       dendrites_json = Array [], somas_json = Absent\<rparr> = Array [] \<and>
   flatmap_connectivity example_failing_server ''map-1'' ''ilxtr:p1'' = NetworkError \<and>
   g_nodes (projr (addConnectivity_json (ConnectivityGraph_new Map.empty)
      (Some \<lparr>connectivity_json = Array [], axons_json = Array [(''a'', [])],
             dendrites_json = Array [], somas_json = Absent\<rparr>))) = [MISSING_node] \<and>
   g_edges (projr (addConnectivity_json (ConnectivityGraph_new Map.empty)
      (fetchMapConnectivity example_failing_server ''map-1'' ''ilxtr:p1''))) = []"
  using addConnectivity_empty_sentinel[of
      "\<lparr>connectivity_json = Array [], axons_json = Array [(''a'', [])],
        dendrites_json = Array [], somas_json = Absent\<rparr>"
      "[(''a'', [])]" "[]" "[]" Map.empty example_failing_server "''map-1''" "''ilxtr:p1''" None]
  by (auto simp: example_failing_server_def)

text \<open>
  C1 as stated fails: on a missing knowledge (\<^verbatim>\<open>undefined\<close>), on a knowledge without
  its \<^verbatim>\<open>axons\<close> list, and on a knowledge with its lists whose \<^verbatim>\<open>somas\<close> is \<^verbatim>\<open>null\<close>,
  \<^verbatim>\<open>addConnectivity\<close> raises \<^verbatim>\<open>TypeError\<close> instead of producing the sentinel.  The
  first happens in \<^verbatim>\<open>#showGraph\<close> for a release when the selected path has no
  knowledge; and a connectivity response of a map whose body is the JSON text
  \<^verbatim>\<open>null\<close> is passed on as it is, not replaced by the empty connectivity.
\<close>

theorem addConnectivity_missing_counterexample:
  "addConnectivity_json (ConnectivityGraph_new Map.empty) None = Inl TypeError \<and>
   addConnectivity_json (ConnectivityGraph_new Map.empty)
     (Some \<lparr>connectivity_json = Array [], axons_json = Absent, dendrites_json = Absent,
            somas_json = Absent\<rparr>) = Inl TypeError \<and>
   addConnectivity_json (ConnectivityGraph_new Map.empty)
     (Some \<lparr>connectivity_json = Array [], axons_json = Array [], dendrites_json = Array [],
            somas_json = NotArray NullValue\<rparr>) = Inl TypeError \<and>
   knowledgeByPath example_app (path example_app) = None \<and>
   showGraph example_server example_app = Inl TypeError \<and>
   fetchMapConnectivity
     (example_server\<lparr>flatmap_connectivity := (\<lambda>src p. Response True (Some None))\<rparr>)
     ''map-1'' ''ilxtr:p1'' = None"
  by (simp add: addConnectivity_json_def showGraph_def buildGraph_def example_app_def App_new_def
      showSpinner_def fetchMapConnectivity_def Let_def)

text \<open>
  C2.  For every knowledge with its role lists whose connectivity is a non-empty list of
  \<open>n\<close> edges, \<^verbatim>\<open>addConnectivity\<close> on a newly constructed graph returns a graph with
  \<open>2 * n\<close> nodes and \<open>n\<close> edges, both in the order of the input: the nodes are the two
  ends of the first edge, then of the second, and so on, and the edge at each position
  has the identifier \<^verbatim>\<open>${sourceId}_${targetId}\<close> of the input edge at that position.
  Equal input edges therefore give equal graph edges, one each: nothing is merged.
\<close>

theorem addConnectivity_nodes_edges:
  assumes "connectivity k = Some es" and "es \<noteq> []" and "axons k = Some ax" and "dendrites k = Some de"
  shows "\<exists>g. addConnectivity (ConnectivityGraph_new cache) (Some k) = Inr g \<and>
      length (g_nodes g) = 2 * length es \<and> length (g_edges g) = length es \<and>
      g_nodes g = concat (map (\<lambda>e. [graphNode g (fst e), graphNode g (snd e)]) es) \<and>
      g_edges g = map (\<lambda>e. \<lparr>id_edge = JSON_stringify_node (fst e) @ ''_'' @ JSON_stringify_node (snd e),
                              source_edge = JSON_stringify_node (fst e),
                              target_edge = JSON_stringify_node (snd e)\<rparr>) es"
proof -
  define g1 where "g1 = (ConnectivityGraph_new cache)\<lparr>g_assigned := True,
                                 g_axons := map JSON_stringify_node ax,
                                 g_dendrites := map JSON_stringify_node de\<rparr>"
  define g2 where "g2 = (case somas k of None \<Rightarrow> g1 | Some so \<Rightarrow> g1\<lparr>g_somas := map JSON_stringify_node so\<rparr>)"
  have fresh: "g_nodes g2 = []" "g_edges g2 = []"
    by (simp_all add: g2_def g1_def ConnectivityGraph_new_def split: option.splits)
  have res: "addConnectivity (ConnectivityGraph_new cache) (Some k) = Inr (addEdges g2 es)"
    using assms unfolding g2_def g1_def by (simp add: addConnectivity_Some Let_def)
  have n: "g_nodes (addEdges g2 es) =
      concat (map (\<lambda>e. [graphNode (addEdges g2 es) (fst e), graphNode (addEdges g2 es) (snd e)]) es)"
    by (simp add: addEdges_nodes fresh graphNode_addEdges)
  have e: "g_edges (addEdges g2 es) =
      map (\<lambda>e. \<lparr>id_edge = JSON_stringify_node (fst e) @ ''_'' @ JSON_stringify_node (snd e),
                 source_edge = JSON_stringify_node (fst e),
                 target_edge = JSON_stringify_node (snd e)\<rparr>) es"
    by (simp add: addEdges_edges fresh graphEdge_graphNode)
  have ln: "length (g_nodes (addEdges g2 es)) = 2 * length es"
    by (simp add: addEdges_nodes fresh length_concat_pairs)
  have le: "length (g_edges (addEdges g2 es)) = length es"
    by (simp add: e)
  show ?thesis using res n e ln le by blast
qed

theorem addConnectivity_nodes_edges_witness:
  "connectivity example_knowledge = Some [((''a'', []), (''b'', [''c''])), ((''a'', []), (''b'', [''c'']))] \<and>
   length (g_nodes (projr (addConnectivity (ConnectivityGraph_new Map.empty) (Some example_knowledge)))) = 4 \<and>
   length (g_edges (projr (addConnectivity (ConnectivityGraph_new Map.empty) (Some example_knowledge)))) = 2 \<and>
   map id_edge (g_edges (projr (addConnectivity (ConnectivityGraph_new Map.empty) (Some example_knowledge)))) =
     [JSON_stringify_node (''a'', []) @ ''_'' @ JSON_stringify_node (''b'', [''c'']),
      JSON_stringify_node (''a'', []) @ ''_'' @ JSON_stringify_node (''b'', [''c''])]"
  using addConnectivity_nodes_edges[of example_knowledge
      "[((''a'', []), (''b'', [''c''])), ((''a'', []), (''b'', [''c'']))]"
      "[(''a'', [])]" "[(''a'', []), (''b'', [''c''])]" Map.empty]
  by (auto simp: example_knowledge_def)

text \<open>
  C3.  In the graph built from a knowledge, the role keys of the node made from any
  knowledge node follow the precedence: in the axon list and in the dendrite list gives
  \<^verbatim>\<open>'both-a-d'\<close> alone; else in the axon list gives \<^verbatim>\<open>'axon'\<close> alone; else in the soma
  list gives \<^verbatim>\<open>'soma'\<close> alone; else in the dendrite list gives \<^verbatim>\<open>'dendrite'\<close> alone;
  else no key.  Being in a list is having the identifier of one of its members; a
  knowledge without soma list has no somas.  So a node in both the axon and the dendrite
  list is never plain axon or dendrite, and that overlap is tested before the soma list.
\<close>

theorem graphNode_role_precedence:
  assumes "connectivity k = Some es" and "axons k = Some ax" and "dendrites k = Some de"
  shows "\<exists>g. addConnectivity (ConnectivityGraph_new cache) (Some k) = Inr g \<and>
     (\<forall>node.
        (both_a_d (graphNode g node), axon (graphNode g node), soma (graphNode g node),
         dendrite (graphNode g node)) =
        (if JSON_stringify_node node \<in> set (map JSON_stringify_node ax) \<and>
            JSON_stringify_node node \<in> set (map JSON_stringify_node de)
           then (True, False, False, False)
         else if JSON_stringify_node node \<in> set (map JSON_stringify_node ax)
           then (False, True, False, False)
         else if JSON_stringify_node node
                   \<in> set (map JSON_stringify_node (case somas k of None \<Rightarrow> [] | Some so \<Rightarrow> so))
           then (False, False, True, False)
         else if JSON_stringify_node node \<in> set (map JSON_stringify_node de)
           then (False, False, False, True)
         else (False, False, False, False)))"
proof -
  from addConnectivity_total[OF assms] obtain g where
    g: "addConnectivity (ConnectivityGraph_new cache) (Some k) = Inr g"
    by blast
  from addConnectivity_roles[OF g] assms have
    ax: "g_axons g = map JSON_stringify_node ax" and
    de: "g_dendrites g = map JSON_stringify_node de" and
    so: "g_somas g = map JSON_stringify_node (case somas k of None \<Rightarrow> [] | Some so \<Rightarrow> so)"
    by (simp_all add: ConnectivityGraph_new_def split: option.splits)
  have "\<forall>node.
        (both_a_d (graphNode g node), axon (graphNode g node), soma (graphNode g node),
         dendrite (graphNode g node)) =
        (if JSON_stringify_node node \<in> set (map JSON_stringify_node ax) \<and>
            JSON_stringify_node node \<in> set (map JSON_stringify_node de)
           then (True, False, False, False)
         else if JSON_stringify_node node \<in> set (map JSON_stringify_node ax)
           then (False, True, False, False)
         else if JSON_stringify_node node
                   \<in> set (map JSON_stringify_node (case somas k of None \<Rightarrow> [] | Some so \<Rightarrow> so))
           then (False, False, True, False)
         else if JSON_stringify_node node \<in> set (map JSON_stringify_node de)
           then (False, False, False, True)
         else (False, False, False, False))"
    unfolding ax[symmetric] de[symmetric] so[symmetric] by (rule allI) (rule graphNode_flags)
  with g show ?thesis by blast
qed

theorem graphNode_role_precedence_witness:
  "axons example_knowledge = Some [(''a'', [])] \<and>
   dendrites example_knowledge = Some [(''a'', []), (''b'', [''c''])] \<and>
   somas example_knowledge = Some [(''a'', []), (''s'', [])] \<and>
   both_a_d (graphNode (projr (addConnectivity (ConnectivityGraph_new Map.empty) (Some example_knowledge)))
      (''a'', [])) \<and>
   \<not> axon (graphNode (projr (addConnectivity (ConnectivityGraph_new Map.empty) (Some example_knowledge)))
      (''a'', [])) \<and>
   \<not> soma (graphNode (projr (addConnectivity (ConnectivityGraph_new Map.empty) (Some example_knowledge)))
      (''a'', [])) \<and>
   \<not> dendrite (graphNode (projr (addConnectivity (ConnectivityGraph_new Map.empty) (Some example_knowledge)))
      (''a'', [])) \<and>
   soma (graphNode (projr (addConnectivity (ConnectivityGraph_new Map.empty) (Some example_knowledge)))
      (''s'', [])) \<and>
   dendrite (graphNode (projr (addConnectivity (ConnectivityGraph_new Map.empty) (Some example_knowledge)))
      (''b'', [''c'']))"
proof -
  have k: "connectivity example_knowledge = Some [((''a'', []), (''b'', [''c''])), ((''a'', []), (''b'', [''c'']))]"
      "axons example_knowledge = Some [(''a'', [])]"
      "dendrites example_knowledge = Some [(''a'', []), (''b'', [''c''])]"
    by (simp_all add: example_knowledge_def)
  have so: "somas example_knowledge = Some [(''a'', []), (''s'', [])]"
    by (simp add: example_knowledge_def)
  have ids: "JSON_stringify_node (''s'', []) \<noteq> JSON_stringify_node (''a'', [])"
      "JSON_stringify_node (''b'', [''c'']) \<noteq> JSON_stringify_node (''a'', [])"
      "JSON_stringify_node (''b'', [''c'']) \<noteq> JSON_stringify_node (''s'', [])"
    by (simp_all add: JSON_stringify_node_def JSON_stringify_string_def json_escape_def)
  from graphNode_role_precedence[OF k, of Map.empty] obtain g where
    g: "addConnectivity (ConnectivityGraph_new Map.empty) (Some example_knowledge) = Inr g"
    and f: "\<And>node.
        (both_a_d (graphNode g node), axon (graphNode g node), soma (graphNode g node),
         dendrite (graphNode g node)) =
        (if JSON_stringify_node node \<in> set (map JSON_stringify_node [(''a'', [])]) \<and>
            JSON_stringify_node node \<in> set (map JSON_stringify_node [(''a'', []), (''b'', [''c''])])
           then (True, False, False, False)
         else if JSON_stringify_node node \<in> set (map JSON_stringify_node [(''a'', [])])
           then (False, True, False, False)
         else if JSON_stringify_node node
                   \<in> set (map JSON_stringify_node
                        (case somas example_knowledge of None \<Rightarrow> [] | Some so \<Rightarrow> so))
           then (False, False, True, False)
         else if JSON_stringify_node node \<in> set (map JSON_stringify_node [(''a'', []), (''b'', [''c''])])
           then (False, False, False, True)
         else (False, False, False, False))"
    by blast
  show ?thesis
    using f[of "(''a'', [])"] f[of "(''s'', [])"] f[of "(''b'', [''c''])"] ids
    by (simp add: g k so)
qed

text \<open>
  C7 (as amended).  Let no term of the node and no display string the label cache holds
  for one of them contain a newline.  Then, for the term at position \<open>i\<close> of the term
  sequence of the node (the primary term, then the qualifiers), line \<open>i\<close> of the second
  half of the lines of the label is the string the cache holds for the term, and the
  empty string when the cache has no entry for it.  The builder is total, so no exception
  arises, and the line is a string in both cases.
\<close>

theorem graphNode_label_roundtrip:
  assumes "\<forall>t\<in>set (fst node # snd node). NL \<notin> set t"
      and "\<forall>t\<in>set (fst node # snd node). \<forall>l. g_labelCache g t = Some l \<longrightarrow> NL \<notin> set l"
      and "i < length (fst node # snd node)"
  shows "split_chr NL (label_node (graphNode g node)) ! (length (fst node # snd node) + i) =
           (case g_labelCache g ((fst node # snd node) ! i) of Some foo \<Rightarrow> foo | None \<Rightarrow> [])"
proof -
  let ?ts = "fst node # snd node"
  let ?hs = "map (\<lambda>t. case g_labelCache g t of Some l \<Rightarrow> l | None \<Rightarrow> []) ?ts"
  have L: "split_chr NL (label_node (graphNode g node)) = ?ts @ ?hs"
    using assms(1,2) by (rule lines_graphNode)
  have "(?ts @ ?hs) ! (length ?ts + i) = ?hs ! i"
    by (rule nth_append_length_plus)
  also have "\<dots> = (case g_labelCache g (?ts ! i) of Some foo \<Rightarrow> foo | None \<Rightarrow> [])"
    using assms(3) by (simp only: nth_map)
  finally show ?thesis using L by simp
qed

theorem graphNode_label_roundtrip_witness:
  "example_cache ''T1'' = Some ''Foo'' \<and> example_cache ''T2'' = None \<and>
   split_chr NL (label_node (graphNode (ConnectivityGraph_new example_cache) (''T2'', [''T1'']))) ! 2 = [] \<and>
   split_chr NL (label_node (graphNode (ConnectivityGraph_new example_cache) (''T2'', [''T1'']))) ! 3 = ''Foo''"
proof -
  have nl: "NL \<notin> set ''T1''" "NL \<notin> set ''T2''" "NL \<notin> set ''Foo''"
    by (simp_all add: NL_def)
  have h1: "\<forall>t\<in>set (fst (''T2'', [''T1'']) # snd (''T2'', [''T1''])). NL \<notin> set t"
    using nl by simp
  have h2: "\<forall>t\<in>set (fst (''T2'', [''T1'']) # snd (''T2'', [''T1''])).
      \<forall>l. g_labelCache (ConnectivityGraph_new example_cache) t = Some l \<longrightarrow> NL \<notin> set l"
    using nl by (simp add: ConnectivityGraph_new_def example_cache_def)
  have i0: "0 < length (fst (''T2'', [''T1'']) # snd (''T2'', [''T1'']))" by simp
  have i1: "1 < length (fst (''T2'', [''T1'']) # snd (''T2'', [''T1'']))" by simp
  show ?thesis
    using graphNode_label_roundtrip[OF h1 h2 i0] graphNode_label_roundtrip[OF h1 h2 i1]
    by (simp add: ConnectivityGraph_new_def example_cache_def eval_nat_numeral)
qed

text \<open>
  C7 as stated fails when a cached display string contains a newline: with
  \<^verbatim>\<open>T3\<close> resolved to three lines and \<^verbatim>\<open>T2\<close> unresolved, the label of the node
  \<^verbatim>\<open>['T3', ['T2']]\<close> has six lines, and at the position of \<^verbatim>\<open>T2\<close> in the second half
  stands \<^verbatim>\<open>c\<close>, not the empty string.
\<close>

theorem graphNode_label_roundtrip_counterexample:
  "example_cache ''T2'' = None \<and>
   split_chr NL (label_node (graphNode (ConnectivityGraph_new example_cache) (''T3'', [''T2''])))
     = [''T3'', ''T2'', ''a'', ''b'', ''c'', []] \<and>
   drop 3 (split_chr NL (label_node (graphNode (ConnectivityGraph_new example_cache) (''T3'', [''T2''])))) ! 1
     = ''c''"
  by (simp add: graphNode_def ConnectivityGraph_new_def example_cache_def NL_def Let_def)

text \<open>
  C9 (as amended).  Let no term of the node and no display string the label cache holds
  for one of them contain a newline.  Then the label of a node with \<open>k\<close> qualifying terms
  has exactly \<open>2 * (k + 1)\<close> lines, the first half the raw terms (the primary term first)
  and the second half their display strings in the same order, and \<^verbatim>\<open>trimLabel\<close> shows
  exactly the display strings, capitalised.
\<close>

theorem graphNode_label_lines:
  assumes "\<forall>t\<in>set (fst node # snd node). NL \<notin> set t"
      and "\<forall>t\<in>set (fst node # snd node). \<forall>l. g_labelCache g t = Some l \<longrightarrow> NL \<notin> set l"
  shows "length (split_chr NL (label_node (graphNode g node))) = 2 * (length (snd node) + 1) \<and>
         take (length (snd node) + 1) (split_chr NL (label_node (graphNode g node))) = fst node # snd node \<and>
         drop (length (snd node) + 1) (split_chr NL (label_node (graphNode g node))) =
           map (\<lambda>t. case g_labelCache g t of Some l \<Rightarrow> l | None \<Rightarrow> []) (fst node # snd node) \<and>
         trimLabel (label_node (graphNode g node)) =
           capitalizeLabels (join_str [NL]
             (map (\<lambda>t. case g_labelCache g t of Some l \<Rightarrow> l | None \<Rightarrow> []) (fst node # snd node)))"
proof -
  let ?ts = "fst node # snd node"
  let ?hs = "map (\<lambda>t. case g_labelCache g t of Some l \<Rightarrow> l | None \<Rightarrow> []) ?ts"
  have L: "split_chr NL (label_node (graphNode g node)) = ?ts @ ?hs"
    using assms by (rule lines_graphNode)
  have n: "length ?ts = length (snd node) + 1" by simp
  have len: "length (?ts @ ?hs) = 2 * (length (snd node) + 1)" by simp
  have tk: "take (length (snd node) + 1) (?ts @ ?hs) = ?ts" by simp
  have dr: "drop (length (snd node) + 1) (?ts @ ?hs) = ?hs" by simp
  have half: "length (?ts @ ?hs) div 2 = length (snd node) + 1" by simp
  have "trimLabel (label_node (graphNode g node)) = capitalizeLabels (join_str [NL] ?hs)"
    unfolding trimLabel_def Let_def L half dr ..
  with L len tk dr show ?thesis by simp
qed

theorem graphNode_label_lines_witness:
  "NL \<notin> set ''T1'' \<and> NL \<notin> set ''T2'' \<and> NL \<notin> set ''Foo'' \<and>
   length (split_chr NL (label_node (graphNode (ConnectivityGraph_new example_cache) (''T1'', [''T2''])))) = 4 \<and>
   take 2 (split_chr NL (label_node (graphNode (ConnectivityGraph_new example_cache) (''T1'', [''T2'']))))
     = [''T1'', ''T2''] \<and>
   drop 2 (split_chr NL (label_node (graphNode (ConnectivityGraph_new example_cache) (''T1'', [''T2'']))))
     = [''Foo'', []]"
proof -
  have nl: "NL \<notin> set ''T1''" "NL \<notin> set ''T2''" "NL \<notin> set ''Foo''"
    by (simp_all add: NL_def)
  have h1: "\<forall>t\<in>set (fst (''T1'', [''T2'']) # snd (''T1'', [''T2''])). NL \<notin> set t"
    using nl by simp
  have h2: "\<forall>t\<in>set (fst (''T1'', [''T2'']) # snd (''T1'', [''T2''])).
      \<forall>l. g_labelCache (ConnectivityGraph_new example_cache) t = Some l \<longrightarrow> NL \<notin> set l"
    using nl by (simp add: ConnectivityGraph_new_def example_cache_def)
  show ?thesis
    using nl graphNode_label_lines[OF h1 h2]
    by (simp add: ConnectivityGraph_new_def example_cache_def eval_nat_numeral)
qed

text \<open>
  C9 as stated fails when a cached display string contains a newline: the node
  \<^verbatim>\<open>['T3', ['T4']]\<close> has one qualifying term and a label of six lines, not four, and
  \<^verbatim>\<open>trimLabel\<close> drops the first line of the display string of \<^verbatim>\<open>T3\<close>.
\<close>

theorem graphNode_label_lines_counterexample:
  "length (split_chr NL (label_node (graphNode (ConnectivityGraph_new example_cache) (''T3'', [''T4''])))) = 6 \<and>
   drop 3 (split_chr NL (label_node (graphNode (ConnectivityGraph_new example_cache) (''T3'', [''T4'']))))
     = [''b'', ''c'', ''d''] \<and>
   trimLabel (label_node (graphNode (ConnectivityGraph_new example_cache) (''T3'', [''T4''])))
     = ''B'' @ [NL] @ ''C'' @ [NL] @ ''D''"
  by code_simp

section \<open>Properties of the controller\<close>

subsection \<open>The list of paths of a map\<close>





subsection \<open>The label query\<close>







subsection \<open>Building and showing the graph\<close>






lemma example_shown_graph_built:
  "addConnectivity_json (ConnectivityGraph_new Map.empty) (Some emptyConnectivity)
     = Inr (example_shown_graph\<lparr>g_cy := None\<rparr>) \<and>
   showConnectivity ''dagre'' (example_shown_graph\<lparr>g_cy := None\<rparr>) = Inr example_shown_graph"
  by (simp add: addConnectivity_json_def connectivity_length_def emptyConnectivity_def
      ConnectivityGraph_new_def example_shown_graph_def showConnectivity_def CytoscapeGraph_new_def
      roots_def Let_def)

subsection \<open>The list of servers\<close>



section \<open>The claims about the controller\<close>

text \<open>
  C4.  The claim is that of several rows for one term only the first is stored in the
  label cache.  The loop of \<^verbatim>\<open>#getCachedTermLabels\<close> compares each row with the row
  just before it only, and the rows are ordered by source, not by term.  Evaluated on
  the rows \<^verbatim>\<open>A\<close> (label \<^verbatim>\<open>new\<close>), \<^verbatim>\<open>B\<close>, \<^verbatim>\<open>C\<close>, \<^verbatim>\<open>A\<close> (label \<^verbatim>\<open>old\<close>) for the three
  terms \<^verbatim>\<open>A\<close>, \<^verbatim>\<open>B\<close>, \<^verbatim>\<open>C\<close>, the cache ends with the label of the later row for \<^verbatim>\<open>A\<close>.
\<close>

theorem getCachedTermLabels_later_row_wins:
  "query (query_labels example_server [''A'', ''B'', ''C'']) =
     [(''A'', Some \<lparr>label_k = Some ''new'', body_k = emptyConnectivity\<rparr>),
      (''B'', Some \<lparr>label_k = Some ''bee'', body_k = emptyConnectivity\<rparr>),
      (''C'', Some \<lparr>label_k = None, body_k = emptyConnectivity\<rparr>),
      (''A'', Some \<lparr>label_k = Some ''old'', body_k = emptyConnectivity\<rparr>)] \<and>
   labelCache (projr (getCachedTermLabels example_server
      (example_app\<lparr>labelledTerms := [''A'', ''B'', ''C'']\<rparr>))) ''A'' = Some ''old''"
  by (simp add: getCachedTermLabels_def example_server_def example_app_def App_new_def query_def
      label_or_key_def)




text \<open>
  C6 (as amended).  After an input in the search box, an option other than the first
  shows (its \<^verbatim>\<open>display\<close> is empty, otherwise \<^verbatim>\<open>none\<close>) exactly when the query is blank,
  or the lower-cased label of the option contains the lower-cased query, or it contains
  the lower-cased query with each run of white space replaced by one hyphen.  The first
  option, the values and the labels are untouched, and so are the server, the origin,
  the path, the layout, the current path and the search parameters.
\<close>

theorem pathSearch_oninput_filter:
  "length (pathSelector_options (pathSearch_oninput v a)) = length (pathSelector_options a) \<and>
   (0 < i \<and> i < length (pathSelector_options a) \<longrightarrow>
      (display_opt (pathSelector_options (pathSearch_oninput v a) ! i) = [] \<longleftrightarrow>
         trim_length_zero (toLowerCase v) \<or>
         includes_str (toLowerCase (label_opt (pathSelector_options a ! i))) (toLowerCase v) \<or>
         includes_str (toLowerCase (label_opt (pathSelector_options a ! i)))
           (split_ws_join_hyphen (toLowerCase v))) \<and>
      (display_opt (pathSelector_options (pathSearch_oninput v a) ! i) \<noteq> [] \<longrightarrow>
         display_opt (pathSelector_options (pathSearch_oninput v a) ! i) = ''none'') \<and>
      label_opt (pathSelector_options (pathSearch_oninput v a) ! i) = label_opt (pathSelector_options a ! i) \<and>
      value_opt (pathSelector_options (pathSearch_oninput v a) ! i) = value_opt (pathSelector_options a ! i)) \<and>
   (pathSelector_options a \<noteq> [] \<longrightarrow>
      pathSelector_options (pathSearch_oninput v a) ! 0 = pathSelector_options a ! 0) \<and>
   mapServer (pathSearch_oninput v a) = mapServer a \<and>
   source (pathSearch_oninput v a) = source a \<and>
   path (pathSearch_oninput v a) = path a \<and>
   layout (pathSearch_oninput v a) = layout a \<and>
   currentPath (pathSearch_oninput v a) = currentPath a \<and>
   searchParams (pathSearch_oninput v a) = searchParams a"
proof (cases "pathSelector_options a")
  case Nil
  then show ?thesis by (simp add: pathSearch_oninput_def Let_def)
next
  case (Cons first rest)
  have opts: "pathSelector_options (pathSearch_oninput v a) = first # map (filter_option (toLowerCase v)) rest"
    using Cons by (simp add: pathSearch_oninput_def Let_def)
  have nth: "0 < i \<and> i < length (pathSelector_options a) \<Longrightarrow>
      pathSelector_options (pathSearch_oninput v a) ! i
        = filter_option (toLowerCase v) (pathSelector_options a ! i)" for i
    using Cons opts by (cases i) simp_all
  have frame: "mapServer (pathSearch_oninput v a) = mapServer a \<and>
   source (pathSearch_oninput v a) = source a \<and>
   path (pathSearch_oninput v a) = path a \<and>
   layout (pathSearch_oninput v a) = layout a \<and>
   currentPath (pathSearch_oninput v a) = currentPath a \<and>
   searchParams (pathSearch_oninput v a) = searchParams a"
    by (simp add: pathSearch_oninput_def Let_def)
  show ?thesis
    using frame Cons opts nth[of i]
    by (auto simp: filter_option_def option_found_def Let_def)
qed

theorem pathSearch_oninput_filter_witness:
  "display_opt (pathSelector_options (pathSearch_oninput ''Heart Vagal''
      (example_app\<lparr>pathSelector_options := example_options\<rparr>)) ! 2) = [] \<and>
   display_opt (pathSelector_options (pathSearch_oninput ''Heart Vagal''
      (example_app\<lparr>pathSelector_options := example_options\<rparr>)) ! 1) = ''none'' \<and>
   includes_str (toLowerCase ''Heart-vagal-path'') (split_ws_join_hyphen (toLowerCase ''Heart Vagal'')) \<and>
   path (pathSearch_oninput ''Heart Vagal'' (example_app\<lparr>pathSelector_options := example_options\<rparr>))
     = ''ilxtr:p1''"
proof -
  let ?a = "example_app\<lparr>pathSelector_options := example_options\<rparr>"
  let ?v = "''Heart Vagal''"
  have len: "length example_options = 3"
    by (simp add: example_options_def)
  have l1: "label_opt (example_options ! Suc 0) = ''Bladder neuron path''"
    by (simp add: example_options_def)
  have l2: "label_opt (example_options ! 2) = ''Heart-vagal-path''"
    by (simp add: example_options_def)
  have lv: "toLowerCase ?v = ''heart vagal''"
    by code_simp
  have fv: "split_ws_join_hyphen ''heart vagal'' = ''heart-vagal''"
    by (simp add: split_ws_join_hyphen_def is_space_def)
  have tz: "\<not> trim_length_zero ''heart vagal''"
    by (simp add: trim_length_zero_def is_space_def)
  have t1: "toLowerCase ''Bladder neuron path'' = ''bladder neuron path''"
    by code_simp
  have t2: "toLowerCase ''Heart-vagal-path'' = ''heart-vagal-path''"
    by code_simp
  have in2: "includes_str ''heart-vagal-path'' ''heart-vagal''"
    by simp
  have out1: "\<not> includes_str ''bladder neuron path'' ''heart vagal'' \<and>
              \<not> includes_str ''bladder neuron path'' ''heart-vagal''"
    by simp
  have p: "path ?a = ''ilxtr:p1''"
    by (simp add: example_app_def App_new_def)
  have d2: "display_opt (pathSelector_options (pathSearch_oninput ?v ?a) ! 2) = []"
    using pathSearch_oninput_filter[of ?v ?a 2] len
    by (simp add: l2 lv fv t2 in2)
  have d1: "display_opt (pathSelector_options (pathSearch_oninput ?v ?a) ! 1) = ''none''"
    using pathSearch_oninput_filter[of ?v ?a 1] len tz out1
    by (simp add: l1 lv fv t1)
  have pp: "path (pathSearch_oninput ?v ?a) = ''ilxtr:p1''"
    using pathSearch_oninput_filter[of ?v ?a 0] p by simp
  show ?thesis
    using d1 d2 pp in2 by (simp add: lv fv t2)
qed

text \<open>
  C6 as stated fails at its own example: the query \<^verbatim>\<open>heart path\<close> folds to
  \<^verbatim>\<open>heart-path\<close>, which is not a substring of \<^verbatim>\<open>heart-vagal-path\<close>, so the option
  \<^verbatim>\<open>Heart-vagal-path\<close> is hidden.
\<close>

theorem pathSearch_oninput_heart_path_counterexample:
  "label_opt (example_options ! 2) = ''Heart-vagal-path'' \<and>
   display_opt (pathSelector_options (pathSearch_oninput ''heart path''
      (example_app\<lparr>pathSelector_options := example_options\<rparr>)) ! 2) = ''none''"
  by (simp add: pathSearch_oninput_def example_options_def example_app_def App_new_def
      filter_option_def option_found_def toLowerCase_def lower_chr_def trim_length_zero_def
      is_space_def split_ws_join_hyphen_def Let_def)

text \<open>
  C8.  Clearing is idempotent: clearing the application twice gives the state that
  clearing once gives; on an application without graph and with an empty current path,
  clearing changes nothing; clearing never creates a tool tip element; both functions are
  total, so nothing is raised.  The same holds for the graph and its presenter: clearing
  twice is clearing once, and clearing a graph that shows nothing changes nothing.
\<close>

theorem clearConnectivity_idempotent:
  "clearConnectivity (clearConnectivity a) = clearConnectivity a \<and>
   (connectivityGraph a = None \<and> currentPath a = [] \<longrightarrow> clearConnectivity a = a) \<and>
   tooltips_created (clearConnectivity a) = tooltips_created a \<and>
   clearConnectivity_graph (clearConnectivity_graph g) = clearConnectivity_graph g \<and>
   (g_cy g = None \<longrightarrow> clearConnectivity_graph g = g)"
proof (intro conjI impI)
  show "clearConnectivity (clearConnectivity a) = clearConnectivity a"
    by (cases "connectivityGraph a") (simp_all add: clearConnectivity_def showPrompt_def Let_def)
next
  assume "connectivityGraph a = None \<and> currentPath a = []"
  then show "clearConnectivity a = a"
    by (cases a) (simp add: clearConnectivity_def)
next
  show "tooltips_created (clearConnectivity a) = tooltips_created a"
    by (cases "connectivityGraph a") (simp_all add: clearConnectivity_def showPrompt_def Let_def)
next
  show "clearConnectivity_graph (clearConnectivity_graph g) = clearConnectivity_graph g"
    by (cases "g_cy g") (simp_all add: clearConnectivity_graph_def Let_def)
next
  assume "g_cy g = None"
  then show "clearConnectivity_graph g = g"
    by (simp add: clearConnectivity_graph_def)
qed

theorem clearConnectivity_idempotent_witness:
  "connectivityGraph (clearConnectivity example_shown_app) = None \<and>
   currentPath (clearConnectivity example_shown_app) = [] \<and>
   clearConnectivity (clearConnectivity example_shown_app) = clearConnectivity example_shown_app \<and>
   tooltips_created (clearConnectivity (clearConnectivity example_shown_app)) = 1 \<and>
   g_cy example_shown_graph \<noteq> None \<and>
   g_cy (clearConnectivity_graph example_shown_graph) = None \<and>
   clearConnectivity_graph (clearConnectivity_graph example_shown_graph)
     = clearConnectivity_graph example_shown_graph"
proof -
  have c: "connectivityGraph (clearConnectivity example_shown_app) = None \<and>
      currentPath (clearConnectivity example_shown_app) = []"
    by (simp add: clearConnectivity_def example_shown_app_def showPrompt_def Let_def)
  have t: "tooltips_created (clearConnectivity example_shown_app) = 1"
    by (simp add: clearConnectivity_def example_shown_app_def showPrompt_def Let_def)
  have s: "g_cy example_shown_graph \<noteq> None"
    by (simp add: example_shown_graph_def)
  have g: "g_cy (clearConnectivity_graph example_shown_graph) = None"
    by (simp add: clearConnectivity_graph_def example_shown_graph_def Let_def)
  show ?thesis
    using c t s g
      clearConnectivity_idempotent[of "clearConnectivity example_shown_app"
        "clearConnectivity_graph example_shown_graph"]
    by simp
qed




end
